theory Spec2Isabelle
  imports Complex_Main "HOL-Library.Word"
begin

section \<open>Strings and the platform's regular expressions\<close>

text \<open>
  A JavaScript string is a sequence of 16-bit code units; a regular expression without
  the \<open>u\<close> flag matches code unit by code unit. String literals of the source are
  ASCII and are written \<open>str ''...''\<close>.
\<close>

type_synonym code_unit = "16 word"
type_synonym js_string = "code_unit list"

definition str :: "string \<Rightarrow> js_string" where
  "str s = map of_char s"

text \<open>
  The fragment of the regular-expression syntax that \<open>youtubeRegex\<close> uses: literal
  text, \<open>.\<close>, sequencing, \<open>|\<close>, \<open>?\<close> and \<open>+\<close>. The anchors \<open>^\<close> and
  \<open>$\<close> (no \<open>m\<close> flag) are the requirement, in \<open>regex_test\<close>, that the match
  covers the whole input.
\<close>

datatype regex =
    Lit js_string
  | Dot
  | Seq regex regex
  | Alt regex regex
  | Opt regex
  | Plus regex

text \<open>\<open>.\<close> matches any code unit but the four line terminators LF, CR, U+2028, U+2029.\<close>

definition line_terminator :: "code_unit \<Rightarrow> bool" where
  "line_terminator c = (c = 0x0A \<or> c = 0x0D \<or> c = 0x2028 \<or> c = 0x2029)"

fun strip_prefix :: "js_string \<Rightarrow> js_string \<Rightarrow> js_string option" where
  "strip_prefix [] s = Some s"
| "strip_prefix (p # ps) [] = None"
| "strip_prefix (p # ps) (c # cs) = (if p = c then strip_prefix ps cs else None)"

text \<open>
  \<open>iterate f n s\<close>: what is left of \<open>s\<close> after one up to \<open>n\<close> rounds of \<open>f\<close>,
  the longer runs first (\<open>+\<close> is greedy).
\<close>

primrec iterate :: "(js_string \<Rightarrow> js_string list) \<Rightarrow> nat \<Rightarrow> js_string \<Rightarrow> js_string list" where
  "iterate f 0 s = []"
| "iterate f (Suc n) s = concat (map (\<lambda>t. iterate f n t @ [t]) (f s))"

text \<open>
  A backtracking matcher: \<open>rests r s\<close> lists, in the order a backtracking engine tries
  them, the remainders of \<open>s\<close> after each way of matching \<open>r\<close> at its start. Rounds
  of a \<open>+\<close> that consume nothing add no match, so \<open>Suc (length s)\<close> rounds are
  enough.
\<close>

fun any_char :: "js_string \<Rightarrow> js_string list" where
  "any_char [] = []"
| "any_char (c # cs) = (if line_terminator c then [] else [cs])"

primrec rests :: "regex \<Rightarrow> js_string \<Rightarrow> js_string list" where
  "rests (Lit l) s = (case strip_prefix l s of None \<Rightarrow> [] | Some t \<Rightarrow> [t])"
| "rests Dot s = any_char s"
| "rests (Seq a b) s = concat (map (rests b) (rests a s))"
| "rests (Alt a b) s = rests a s @ rests b s"
| "rests (Opt a) s = rests a s @ [s]"
| "rests (Plus a) s = iterate (rests a) (Suc (length s)) s"

text \<open>\<open>/^r$/.test(s)\<close>: some way of matching \<open>r\<close> leaves nothing of \<open>s\<close>.\<close>

definition regex_test :: "regex \<Rightarrow> js_string \<Rightarrow> bool" where
  "regex_test r s = ([] \<in> set (rests r s))"

section \<open>JSON values\<close>

text \<open>
  What \<open>response.json()\<close> produces. An object is its list of entries in the order of
  the text; the parser keeps the last of two entries with the same key (\<open>own_prop\<close>).
  A number is its value (JSON text has no NaN) together with the text that the platform's
  conversion of a number to a string gives for it, the digits \<open>42\<close> for 42: the
  shortest decimal that reads back as the same double, which is not computed here.
\<close>

datatype json =
    JNull
  | JBool bool
  | JNum rat js_string
  | JStr js_string
  | JArr "json list"
  | JObj "(js_string \<times> json) list"

text \<open>JavaScript's truthiness, which \<open>!\<close> and \<open>||\<close> test.\<close>

fun truthy :: "json \<Rightarrow> bool" where
  "truthy JNull = False"
| "truthy (JBool b) = b"
| "truthy (JNum n t) = (n \<noteq> 0)"
| "truthy (JStr s) = (s \<noteq> [])"
| "truthy (JArr xs) = True"
| "truthy (JObj kvs) = True"

text \<open>
  Reading a property \<open>v.k\<close> of a non-null value, for the names this module reads
  (\<open>title\<close>, \<open>formats\<close>, \<open>message\<close>): only an object can have one; on a
  boolean, a number, a string or an array the result is \<open>undefined\<close>, here \<open>None\<close>.
\<close>

fun own_prop :: "json \<Rightarrow> js_string \<Rightarrow> json option" where
  "own_prop (JObj kvs) k = map_of (rev kvs) k"
| "own_prop v k = None"

text \<open>\<open>!x\<close> for an \<open>x\<close> that may be \<open>undefined\<close>.\<close>

fun falsy :: "json option \<Rightarrow> bool" where
  "falsy None = True"
| "falsy (Some v) = (\<not> truthy v)"

text \<open>\<open>errorData?.message\<close>: \<open>undefined\<close> when \<open>errorData\<close> is \<open>null\<close>.\<close>

definition optional_message :: "json \<Rightarrow> json option" where
  "optional_message errorData =
     (if errorData = JNull then None else own_prop errorData (str ''message''))"

text \<open>\<open>a || b\<close>.\<close>

definition js_or :: "json option \<Rightarrow> json \<Rightarrow> json" where
  "js_or a b = (case a of None \<Rightarrow> b | Some v \<Rightarrow> if truthy v then v else b)"

text \<open>
  The conversion of a value to a string, which the \<open>Error\<close> constructor applies to
  its message; \<open>None\<close> when the conversion throws its \<open>TypeError\<close>. A string
  is taken as it is. An array is the texts of its elements joined by commas, with nothing
  for a \<open>null\<close> element. An object is \<open>[object Object]\<close> through the
  \<open>toString\<close> it inherits; an own property of that name, which in a parsed value is
  never a function, hides the inherited one, the inherited \<open>valueOf\<close> returns the
  object itself, and the conversion throws.
\<close>

fun ToString :: "json \<Rightarrow> js_string option"
  and join_elements :: "json list \<Rightarrow> js_string option" where
  "ToString JNull = Some (str ''null'')"
| "ToString (JBool b) = Some (if b then str ''true'' else str ''false'')"
| "ToString (JNum n t) = Some t"
| "ToString (JStr s) = Some s"
| "ToString (JArr xs) = join_elements xs"
| "ToString (JObj kvs) =
     (case own_prop (JObj kvs) (str ''toString'') of
        None \<Rightarrow> Some (str ''[object Object]'')
      | Some m \<Rightarrow> None)"
| "join_elements [] = Some []"
| "join_elements (x # xs) =
     (case (case x of JNull \<Rightarrow> Some [] | _ \<Rightarrow> ToString x) of
        None \<Rightarrow> None
      | Some t \<Rightarrow>
          (case join_elements xs of
             None \<Rightarrow> None
           | Some rest \<Rightarrow> Some (if xs = [] then t else t @ str '','' @ rest)))"

section \<open>Errors\<close>

text \<open>
  The three error classes of the module, and \<open>Thrown name message\<close> for every other
  value that can be thrown at it: the \<open>TypeError\<close> with which \<open>fetch\<close> rejects on a
  transport failure, the \<open>AbortError\<close> of a cancelled request, the \<open>SyntaxError\<close>
  of \<open>response.json()\<close>, the \<open>TypeError\<close> of a failed conversion to a string.
  The message of an error is the string that the \<open>Error\<close> constructor stores.
\<close>

datatype error =
    NetworkError js_string
  | ApiError int js_string
  | ValidationError js_string
  | Thrown js_string js_string

fun error_name :: "error \<Rightarrow> js_string" where
  "error_name (NetworkError m) = str ''NetworkError''"
| "error_name (ApiError st m) = str ''ApiError''"
| "error_name (ValidationError m) = str ''ValidationError''"
| "error_name (Thrown n m) = n"

fun instanceof_NetworkError :: "error \<Rightarrow> bool" where
  "instanceof_NetworkError (NetworkError m) = True"
| "instanceof_NetworkError e = False"

fun instanceof_ApiError :: "error \<Rightarrow> bool" where
  "instanceof_ApiError (ApiError st m) = True"
| "instanceof_ApiError e = False"


section \<open>The URL validator\<close>

definition youtubeRegex :: regex where
  "youtubeRegex =
     Seq (Opt (Seq (Lit (str ''http'')) (Seq (Opt (Lit (str ''s''))) (Lit (str ''://'')))))
    (Seq (Opt (Lit (str ''www.'')))
    (Seq (Alt (Lit (str ''youtube.com'')) (Lit (str ''youtu.be'')))
    (Seq (Lit (str ''/''))
         (Plus Dot))))"

definition validateYoutubeUrl :: "js_string \<Rightarrow> error + unit" where
  "validateYoutubeUrl url =
     (if \<not> regex_test youtubeRegex url
      then Inl (ValidationError (str ''Invalid YouTube URL provided.''))
      else Inr ())"

section \<open>Requests, responses and the network\<close>

text \<open>
  The cancellation token handed to \<open>fetch\<close>. \<open>aborted\<close> says whether it was already
  signalled when the call starts; an abort that comes later shows as the \<open>fetch\<close> of
  some attempt rejecting.
\<close>

record abort_signal =
  aborted :: bool

text \<open>
  The arguments of one \<open>fetch\<close> call: the address and the fields of the options
  object (\<open>http_method\<close> is its \<open>method\<close>). \<open>body\<close> is the value given to
  \<open>JSON.stringify\<close>.
\<close>

record request =
  target :: js_string
  http_method :: js_string
  headers :: "(js_string \<times> js_string) list"
  body :: json
  signal :: "abort_signal option"

text \<open>
  What the module reads of a response: \<open>ok\<close>, \<open>status\<close> and the outcome of
  \<open>response.json()\<close>, which rejects on a body that is not JSON.
\<close>

record response =
  ok :: bool
  status :: int
  json_body :: "error + json"

datatype fetch_result = Resolved response | Rejected error

text \<open>
  The network is a parameter: \<open>fetch k req\<close> is the outcome of the \<open>fetch\<close> call
  of attempt \<open>k\<close>.
\<close>

type_synonym fetch = "int \<Rightarrow> request \<Rightarrow> fetch_result"

text \<open>What an invocation does besides returning: its calls of \<open>fetch\<close> and its
  retry delays, in order. The console output is not modelled.\<close>

datatype event = Fetch request | Sleep int

fun is_Fetch :: "event \<Rightarrow> bool" where
  "is_Fetch (Fetch req) = True"
| "is_Fetch (Sleep ms) = False"

fun is_Sleep :: "event \<Rightarrow> bool" where
  "is_Sleep (Sleep ms) = True"
| "is_Sleep (Fetch req) = False"

definition network_calls :: "event list \<Rightarrow> nat" where
  "network_calls evs = length (filter is_Fetch evs)"

definition sleeps :: "event list \<Rightarrow> nat" where
  "sleeps evs = length (filter is_Sleep evs)"

section \<open>The retrying request executor\<close>

definition API_BASE_URL :: js_string where
  "API_BASE_URL = str ''https://yt-downloader-backend-x7xx.onrender.com''"

text \<open>
  The \<open>try\<close> block of one attempt, given the outcome of its \<open>fetch\<close>.
  \<open>new ApiError(status, message)\<close> passes the message to the \<open>Error\<close>
  constructor, which converts it to a string, and that conversion can throw.
\<close>

definition try_attempt :: "fetch_result \<Rightarrow> error + response" where
  "try_attempt fr =
     (case fr of
        Rejected e \<Rightarrow> Inl e
      | Resolved response \<Rightarrow>
          if \<not> ok response then
            (let errorData = (case json_body response of Inl e \<Rightarrow> JNull | Inr v \<Rightarrow> v);
                 message = js_or (optional_message errorData) (JStr (str ''Unknown API error''))
             in case ToString message of
                  None \<Rightarrow>
                    Inl (Thrown (str ''TypeError'')
                           (str ''Cannot convert object to primitive value''))
                | Some text \<Rightarrow> Inl (ApiError (status response) text))
          else Inr response)"

text \<open>
  The \<open>for\<close> loop from \<open>attempt\<close> on. The result is \<open>Inl\<close> the error thrown,
  \<open>Inr (Some response)\<close> the response returned, or \<open>Inr None\<close> when the loop ends
  and the function returns nothing (\<open>undefined\<close>).
\<close>

function attempts ::
  "fetch \<Rightarrow> request \<Rightarrow> int \<Rightarrow> int \<Rightarrow> int \<Rightarrow> (error + response option) \<times> event list" where
  "attempts fetch req retries retryDelay attempt =
     (if attempt \<le> retries then
        (case try_attempt (fetch attempt req) of
           Inr response \<Rightarrow> (Inr (Some response), [Fetch req])
         | Inl error \<Rightarrow>
             if error_name error = str ''AbortError'' then (Inl error, [Fetch req])
             else if attempt = retries
                     \<or> \<not> (instanceof_NetworkError error \<or> instanceof_ApiError error)
             then (Inl error, [Fetch req])
             else (case attempts fetch req retries retryDelay (attempt + 1) of
                     (res, evs) \<Rightarrow> (res, Fetch req # Sleep retryDelay # evs)))
      else (Inr None, []))"
  by pat_completeness auto
termination
  by (relation "measure (\<lambda>(fetch, req, retries, retryDelay, attempt). nat (retries + 1 - attempt))")
     auto

declare attempts.simps [simp del]

text \<open>The arguments that every attempt gives to \<open>fetch\<close>.\<close>

definition api_request :: "js_string \<Rightarrow> js_string \<Rightarrow> abort_signal option \<Rightarrow> request" where
  "api_request endpoint url sig =
     \<lparr>target = API_BASE_URL @ endpoint,
      http_method = str ''POST'',
      headers = [(str ''Content-Type'', str ''application/json'')],
      body = JObj [(str ''url'', JStr url)],
      signal = sig\<rparr>"

definition makeApiRequest ::
  "fetch \<Rightarrow> js_string \<Rightarrow> js_string \<Rightarrow> int \<Rightarrow> int \<Rightarrow> abort_signal option
     \<Rightarrow> (error + response option) \<times> event list" where
  "makeApiRequest fetch endpoint url retries retryDelay sig =
     (case validateYoutubeUrl url of
        Inl e \<Rightarrow> (Inl e, [])
      | Inr u \<Rightarrow> attempts fetch (api_request endpoint url sig) retries retryDelay 1)"

section \<open>Fetching the video information, downloading\<close>

text \<open>
  The \<open>try\<close> block of \<open>fetchVideoInfo\<close>, given what \<open>makeApiRequest\<close> produced.
  Calling \<open>json\<close> on \<open>undefined\<close> throws a \<open>TypeError\<close>.
\<close>

definition parse_video_info :: "error + response option \<Rightarrow> error + json" where
  "parse_video_info res =
     (case res of
        Inl e \<Rightarrow> Inl e
      | Inr None \<Rightarrow>
          Inl (Thrown (str ''TypeError'')
                 (str ''Cannot read properties of undefined (reading 'json')''))
      | Inr (Some response) \<Rightarrow>
          (case json_body response of
             Inl e \<Rightarrow> Inl e
           | Inr videoInfo \<Rightarrow>
               if \<not> truthy videoInfo
                  \<or> falsy (own_prop videoInfo (str ''title''))
                  \<or> falsy (own_prop videoInfo (str ''formats''))
               then Inl (ValidationError
                      (str ''Invalid video info data received from server. Missing required fields.''))
               else Inr videoInfo))"

text \<open>The \<open>catch\<close> block of \<open>fetchVideoInfo\<close>.\<close>

definition remap_error :: "error \<Rightarrow> error" where
  "remap_error error =
     (case error of
        ApiError st m \<Rightarrow>
          if st = 404 \<or> st = 400
          then ValidationError (str ''Video not found or invalid URL.'')
          else error
      | _ \<Rightarrow> error)"

definition fetchVideoInfo ::
  "fetch \<Rightarrow> js_string \<Rightarrow> abort_signal option \<Rightarrow> (error + json) \<times> event list" where
  "fetchVideoInfo fetch url sig =
     (case makeApiRequest fetch (str ''/infoVideo'') url 3 1000 sig of
        (res, evs) \<Rightarrow>
          (case parse_video_info res of
             Inl error \<Rightarrow> (Inl (remap_error error), evs)
           | Inr videoInfo \<Rightarrow> (Inr videoInfo, evs)))"

definition downloadVideo ::
  "fetch \<Rightarrow> js_string \<Rightarrow> abort_signal option \<Rightarrow> (error + response option) \<times> event list" where
  "downloadVideo fetch url sig = makeApiRequest fetch (str ''/download'') url 3 1000 sig"

section \<open>Notions used to state the properties\<close>

text \<open>
  An attempt fails with a retryable kind: its \<open>try\<close> block throws a
  \<open>NetworkError\<close> or an \<open>ApiError\<close>.
\<close>

definition retryable_failure :: "fetch_result \<Rightarrow> bool" where
  "retryable_failure fr =
     (case try_attempt fr of
        Inl e \<Rightarrow> instanceof_NetworkError e \<or> instanceof_ApiError e
      | Inr r \<Rightarrow> False)"

text \<open>The events of \<open>n\<close> failed attempts that are retried: a call and a delay each.\<close>

definition retry_rounds :: "request \<Rightarrow> int \<Rightarrow> nat \<Rightarrow> event list" where
  "retry_rounds req retryDelay n = concat (replicate n [Fetch req, Sleep retryDelay])"

text \<open>
  The pattern as the specification describes it: an optional scheme, an optional
  \<open>www.\<close>, one of the two hosts, a slash and any non-empty path.
\<close>

definition described_pattern :: "js_string \<Rightarrow> bool" where
  "described_pattern url \<longleftrightarrow>
     (\<exists>scheme www host path.
        scheme \<in> {[], str ''http://'', str ''https://''} \<and>
        www \<in> {[], str ''www.''} \<and>
        host \<in> {str ''youtube.com'', str ''youtu.be''} \<and>
        path \<noteq> [] \<and>
        url = scheme @ www @ host @ str ''/'' @ path)"

text \<open>The same with a path that holds no line terminator.\<close>

definition accepted_pattern :: "js_string \<Rightarrow> bool" where
  "accepted_pattern url \<longleftrightarrow>
     (\<exists>scheme www host path.
        scheme \<in> {[], str ''http://'', str ''https://''} \<and>
        www \<in> {[], str ''www.''} \<and>
        host \<in> {str ''youtube.com'', str ''youtu.be''} \<and>
        path \<noteq> [] \<and> \<not> list_ex line_terminator path \<and>
        url = scheme @ www @ host @ str ''/'' @ path)"

text \<open>
  The Video Info invariant as the specification words it: a non-empty title and a
  non-empty sequence of formats.
\<close>

definition nonempty_title_and_formats :: "json \<Rightarrow> bool" where
  "nonempty_title_and_formats v =
     (case (own_prop v (str ''title''), own_prop v (str ''formats'')) of
        (Some (JStr t), Some (JArr fs)) \<Rightarrow> t \<noteq> [] \<and> fs \<noteq> []
      | _ \<Rightarrow> False)"

text \<open>
  The message of the \<open>ApiError\<close> as the specification words it: the message field of
  the parsed body when present, the default otherwise.
\<close>

definition message_when_present :: "error + json \<Rightarrow> json" where
  "message_when_present parsed =
     (case parsed of
        Inl e \<Rightarrow> JStr (str ''Unknown API error'')
      | Inr errorData \<Rightarrow>
          (case own_prop errorData (str ''message'') of
             None \<Rightarrow> JStr (str ''Unknown API error'')
           | Some m \<Rightarrow> m))"

subsection \<open>Sample inputs\<close>

definition sample_url :: js_string where
  "sample_url = str ''https://youtu.be/abc123''"

definition sample_info :: json where
  "sample_info =
     JObj [(str ''title'', JStr (str ''X'')),
           (str ''formats'', JArr [JObj [(str ''quality'', JStr (str ''720p''))]])]"

definition success_response :: response where
  "success_response = \<lparr>ok = True, status = 200, json_body = Inr sample_info\<rparr>"

definition failure_response :: "int \<Rightarrow> response" where
  "failure_response st =
     \<lparr>ok = False, status = st,
      json_body = Inr (JObj [(str ''message'', JStr (str ''not found''))])\<rparr>"

text \<open>A server that always answers.\<close>

definition fetch_success :: fetch where
  "fetch_success k req = Resolved success_response"

text \<open>A server that answers every request with the status \<open>st\<close>.\<close>

definition fetch_status :: "int \<Rightarrow> fetch" where
  "fetch_status st k req = Resolved (failure_response st)"

text \<open>A server that fails with status 500 before attempt \<open>n\<close> and answers from then on.\<close>

definition fetch_success_from :: "int \<Rightarrow> fetch" where
  "fetch_success_from n k req =
     (if k < n then Resolved (failure_response 500) else Resolved success_response)"

text \<open>
  A network that is down for the first attempt only: \<open>fetch\<close> rejects with a
  \<open>TypeError\<close>, as it does on a transport failure.
\<close>

definition transport_failure :: error where
  "transport_failure = Thrown (str ''TypeError'') (str ''Failed to fetch'')"

definition fetch_offline_once :: fetch where
  "fetch_offline_once k req =
     (if k = 1 then Rejected transport_failure else Resolved success_response)"




text \<open>A metadata answer with a title and an empty list of formats.\<close>

definition info_without_formats :: json where
  "info_without_formats = JObj [(str ''title'', JStr (str ''X'')), (str ''formats'', JArr [])]"

definition fetch_info_without_formats :: fetch where
  "fetch_info_without_formats k req =
     Resolved \<lparr>ok = True, status = 200, json_body = Inr info_without_formats\<rparr>"

text \<open>A metadata answer without a title.\<close>

definition fetch_info_without_title :: fetch where
  "fetch_info_without_title k req =
     Resolved \<lparr>ok = True, status = 200,
               json_body = Inr (JObj [(str ''formats'', JArr [JStr (str ''720p'')])])\<rparr>"

text \<open>An error answer whose body has an empty message.\<close>

definition empty_message_response :: response where
  "empty_message_response =
     \<lparr>ok = False, status = 500, json_body = Inr (JObj [(str ''message'', JStr [])])\<rparr>"

text \<open>Error answers whose message is the number 42, and an object with a \<open>toString\<close> entry.\<close>

definition number_message_response :: response where
  "number_message_response =
     \<lparr>ok = False, status = 500,
      json_body = Inr (JObj [(str ''message'', JNum 42 (str ''42''))])\<rparr>"

definition unconvertible_message_response :: response where
  "unconvertible_message_response =
     \<lparr>ok = False, status = 500,
      json_body = Inr (JObj [(str ''message'', JObj [(str ''toString'', JNum 0 (str ''0''))])])\<rparr>"

text \<open>A pasted address that ends with a line feed.\<close>

definition url_with_newline :: js_string where
  "url_with_newline = str ''https://youtu.be/abc123'' @ [0x0A]"

section \<open>The matcher on the pattern of the validator\<close>

lemma strip_prefix_Some: "strip_prefix p s = Some t \<longleftrightarrow> s = p @ t"
  by (induction p s rule: strip_prefix.induct) auto

lemma set_rests_Lit: "set (rests (Lit l) s) = {t. s = l @ t}"
proof (cases "strip_prefix l s")
  case None
  then have "\<And>t. s \<noteq> l @ t"
    using strip_prefix_Some [of l s] by auto
  with None show ?thesis by simp
next
  case (Some t)
  then have "s = l @ t" by (simp add: strip_prefix_Some)
  with Some show ?thesis by auto
qed

lemma set_rests_Seq: "set (rests (Seq a b) s) = (\<Union>t \<in> set (rests a s). set (rests b t))"
  by simp

lemma set_rests_Alt: "set (rests (Alt a b) s) = set (rests a s) \<union> set (rests b s)"
  by simp

lemma set_rests_Opt: "set (rests (Opt a) s) = insert s (set (rests a s))"
  by simp

lemma set_iterate_Dot:
  "set (iterate any_char n s) =
     {t. \<exists>u. u \<noteq> [] \<and> length u \<le> n \<and> s = u @ t \<and> \<not> list_ex line_terminator u}"
proof (induction n arbitrary: s)
  case 0
  then show ?case by auto
next
  case (Suc n)
  show ?case
  proof (cases s)
    case Nil
    then show ?thesis by auto
  next
    case (Cons c cs)
    show ?thesis
    proof (cases "line_terminator c")
      case True
      with Cons show ?thesis
        by (auto simp: Cons_eq_append_conv)
    next
      case False
      have "set (iterate any_char (Suc n) s) = insert cs (set (iterate any_char n cs))"
        using Cons False by simp
      also have "\<dots> = {t. \<exists>u. u \<noteq> [] \<and> length u \<le> Suc n \<and> c # cs = u @ t \<and> \<not> list_ex line_terminator u}"
        (is "?L = ?R")
      proof (intro set_eqI iffI)
        fix t assume "t \<in> ?L"
        then consider "t = cs" | u where "u \<noteq> []" "length u \<le> n" "cs = u @ t" "\<not> list_ex line_terminator u"
          by (auto simp: Suc.IH)
        then show "t \<in> ?R"
        proof cases
          case 1
          with False show ?thesis by (intro CollectI exI [of _ "[c]"]) simp
        next
          case 2
          with False show ?thesis by (intro CollectI exI [of _ "c # u"]) simp
        qed
      next
        fix t assume "t \<in> ?R"
        then obtain u where u: "u \<noteq> []" "length u \<le> Suc n" "c # cs = u @ t" "\<not> list_ex line_terminator u"
          by blast
        then obtain u' where u': "u = c # u'" "cs = u' @ t"
          by (cases u) auto
        show "t \<in> ?L"
        proof (cases "u' = []")
          case True
          with u' show ?thesis by simp
        next
          case False
          with u u' have "t \<in> set (iterate any_char n cs)"
            by (auto simp: Suc.IH)
          then show ?thesis by simp
        qed
      qed
      finally show ?thesis using Cons by simp
    qed
  qed
qed

lemma rests_Plus_Dot_empty:
  "[] \<in> set (rests (Plus Dot) s) \<longleftrightarrow> s \<noteq> [] \<and> \<not> list_ex line_terminator s"
proof -
  have "rests Dot = any_char"
    by (rule ext) simp
  then have "[] \<in> set (rests (Plus Dot) s) \<longleftrightarrow> [] \<in> set (iterate any_char (Suc (length s)) s)"
    by simp
  also have "\<dots> \<longleftrightarrow> s \<noteq> [] \<and> \<not> list_ex line_terminator s"
    unfolding set_iterate_Dot by auto
  finally show ?thesis .
qed

lemma chain_pattern:
  "(\<exists>t1. (t1 = url \<or> url = H @ t1 \<or> url = HS @ t1) \<and>
     (\<exists>t2. (t2 = t1 \<or> t1 = W @ t2) \<and>
       (\<exists>t3. (t2 = Y @ t3 \<or> t2 = B @ t3) \<and>
         (\<exists>t4. t3 = SL @ t4 \<and> t4 \<noteq> [] \<and> \<not> list_ex lt t4)))) \<longleftrightarrow>
   (\<exists>scheme www host path.
      scheme \<in> {[], H, HS} \<and> www \<in> {[], W} \<and> host \<in> {Y, B} \<and>
      path \<noteq> [] \<and> \<not> list_ex lt path \<and>
      url = scheme @ www @ host @ SL @ path)"
  (is "?L \<longleftrightarrow> ?R")
proof
  assume ?L
  then obtain t1 t2 t3 t4 where
    s: "t1 = url \<or> url = H @ t1 \<or> url = HS @ t1" and
    w: "t2 = t1 \<or> t1 = W @ t2" and
    h: "t2 = Y @ t3 \<or> t2 = B @ t3" and
    p: "t3 = SL @ t4" "t4 \<noteq> []" "\<not> list_ex lt t4"
    by blast
  from s obtain scheme where scheme: "scheme \<in> {[], H, HS}" "url = scheme @ t1"
    by auto
  from w obtain www where www: "www \<in> {[], W}" "t1 = www @ t2"
    by auto
  from h obtain host where host: "host \<in> {Y, B}" "t2 = host @ t3"
    by auto
  from scheme www host p show ?R
    by blast
next
  assume ?R
  then obtain scheme www host path where
    r: "scheme \<in> {[], H, HS}" "www \<in> {[], W}" "host \<in> {Y, B}"
       "path \<noteq> []" "\<not> list_ex lt path" "url = scheme @ www @ host @ SL @ path"
    by blast
  let ?t3 = "SL @ path" and ?t2 = "host @ SL @ path" and ?t1 = "www @ host @ SL @ path"
  have "?t1 = url \<or> url = H @ ?t1 \<or> url = HS @ ?t1" using r(1,6) by auto
  moreover have "?t2 = ?t1 \<or> ?t1 = W @ ?t2" using r(2) by auto
  moreover have "?t2 = Y @ ?t3 \<or> ?t2 = B @ ?t3" using r(3) by auto
  ultimately show ?L using r(4,5) by blast
qed

lemma scheme_rests:
  "t \<in> set (rests (Opt (Seq (Lit (str ''http'')) (Seq (Opt (Lit (str ''s''))) (Lit (str ''://''))))) url)
     \<longleftrightarrow> t = url \<or> url = str ''http://'' @ t \<or> url = str ''https://'' @ t"
proof -
  have 1: "str ''http://'' = str ''http'' @ str ''://''"
    and 2: "str ''https://'' = str ''http'' @ str ''s'' @ str ''://''"
    by (simp_all add: str_def)
  show ?thesis
    unfolding set_rests_Opt set_rests_Seq set_rests_Lit 1 2 by auto
qed

lemma regex_test_youtubeRegex: "regex_test youtubeRegex url \<longleftrightarrow> accepted_pattern url"
proof -
  have "regex_test youtubeRegex url \<longleftrightarrow>
    (\<exists>t1. t1 \<in> set (rests (Opt (Seq (Lit (str ''http'')) (Seq (Opt (Lit (str ''s''))) (Lit (str ''://''))))) url) \<and>
     (\<exists>t2. t2 \<in> set (rests (Opt (Lit (str ''www.''))) t1) \<and>
     (\<exists>t3. t3 \<in> set (rests (Alt (Lit (str ''youtube.com'')) (Lit (str ''youtu.be''))) t2) \<and>
     (\<exists>t4. t4 \<in> set (rests (Lit (str ''/'')) t3) \<and> [] \<in> set (rests (Plus Dot) t4)))))"
    unfolding regex_test_def youtubeRegex_def set_rests_Seq by blast
  also have "\<dots> \<longleftrightarrow>
    (\<exists>t1. (t1 = url \<or> url = str ''http://'' @ t1 \<or> url = str ''https://'' @ t1) \<and>
     (\<exists>t2. (t2 = t1 \<or> t1 = str ''www.'' @ t2) \<and>
       (\<exists>t3. (t2 = str ''youtube.com'' @ t3 \<or> t2 = str ''youtu.be'' @ t3) \<and>
         (\<exists>t4. t3 = str ''/'' @ t4 \<and> t4 \<noteq> [] \<and> \<not> list_ex line_terminator t4))))"
    unfolding scheme_rests rests_Plus_Dot_empty
    unfolding set_rests_Opt set_rests_Alt set_rests_Lit by simp
  also have "\<dots> \<longleftrightarrow> accepted_pattern url"
    unfolding accepted_pattern_def by (rule chain_pattern)
  finally show ?thesis .
qed

section \<open>The retry loop\<close>

lemma retryable_not_abort:
  "instanceof_NetworkError e \<or> instanceof_ApiError e \<Longrightarrow> error_name e \<noteq> str ''AbortError''"
  by (cases e) (simp_all add: str_def)

lemma attempts_done:
  "retries < attempt \<Longrightarrow> attempts fetch req retries retryDelay attempt = (Inr None, [])"
  by (simp add: attempts.simps)

lemma attempts_success:
  "attempt \<le> retries \<Longrightarrow> try_attempt (fetch attempt req) = Inr r \<Longrightarrow>
   attempts fetch req retries retryDelay attempt = (Inr (Some r), [Fetch req])"
  by (simp add: attempts.simps)


lemma attempts_give_up:
  "attempt \<le> retries \<Longrightarrow> try_attempt (fetch attempt req) = Inl e \<Longrightarrow>
   attempt = retries \<or> \<not> (instanceof_NetworkError e \<or> instanceof_ApiError e) \<Longrightarrow>
   attempts fetch req retries retryDelay attempt = (Inl e, [Fetch req])"
  by (subst attempts.simps) auto

lemma attempts_retry:
  "attempt < retries \<Longrightarrow> retryable_failure (fetch attempt req) \<Longrightarrow>
   attempts fetch req retries retryDelay attempt =
     (case attempts fetch req retries retryDelay (attempt + 1) of
        (res, evs) \<Rightarrow> (res, Fetch req # Sleep retryDelay # evs))"
  by (subst attempts.simps)
     (auto simp: retryable_failure_def retryable_not_abort split: sum.splits)

lemma attempts_rounds:
  "\<forall>j. attempt \<le> j \<and> j < attempt + int n \<longrightarrow> retryable_failure (fetch j req) \<Longrightarrow>
   attempt + int n \<le> retries \<Longrightarrow>
   attempts fetch req retries retryDelay attempt =
     (case attempts fetch req retries retryDelay (attempt + int n) of
        (res, evs) \<Rightarrow> (res, retry_rounds req retryDelay n @ evs))"
proof (induction n arbitrary: attempt)
  case 0
  then show ?case by (simp add: retry_rounds_def split: prod.splits)
next
  case (Suc n)
  have first: "retryable_failure (fetch attempt req)"
    using Suc.prems(1) by simp
  have rest: "\<forall>j. attempt + 1 \<le> j \<and> j < (attempt + 1) + int n \<longrightarrow> retryable_failure (fetch j req)"
    using Suc.prems(1) by simp
  have le: "(attempt + 1) + int n \<le> retries"
    using Suc.prems(2) by simp
  have lt: "attempt < retries"
    using Suc.prems(2) by simp
  have eq: "attempt + 1 + int n = attempt + int (Suc n)" by simp
  show ?case
    using attempts_retry [where fetch = fetch and req = req and attempt = attempt
        and retries = retries and retryDelay = retryDelay] lt first Suc.IH [OF rest le]
    by (simp add: eq retry_rounds_def split: prod.splits)
qed

lemma attempts_calls_le:
  "network_calls (snd (attempts fetch req retries retryDelay attempt)) \<le> nat (retries + 1 - attempt)"
proof (induction fetch req retries retryDelay attempt rule: attempts.induct)
  case (1 fetch req retries retryDelay attempt)
  show ?case
  proof (cases "attempt \<le> retries")
    case False
    then show ?thesis by (simp add: attempts.simps network_calls_def)
  next
    case True
    show ?thesis
    proof (cases "try_attempt (fetch attempt req)")
      case (Inr r)
      with True show ?thesis by (simp add: attempts_success network_calls_def)
    next
      case (Inl e)
      show ?thesis
      proof (cases "error_name e = str ''AbortError'' \<or> attempt = retries
                     \<or> \<not> (instanceof_NetworkError e \<or> instanceof_ApiError e)")
        case True
        with \<open>attempt \<le> retries\<close> Inl show ?thesis
          by (subst attempts.simps) (auto simp: network_calls_def)
      next
        case False
        with "1.IH" [OF True Inl] True Inl
        have "network_calls (snd (attempts fetch req retries retryDelay (attempt + 1)))
                \<le> nat (retries + 1 - (attempt + 1))"
          by auto
        with False True Inl show ?thesis
          by (subst attempts.simps) (auto simp: network_calls_def split: prod.splits)
      qed
    qed
  qed
qed

lemma attempts_defined:
  "attempt \<le> retries \<Longrightarrow> fst (attempts fetch req retries retryDelay attempt) \<noteq> Inr None"
proof (induction fetch req retries retryDelay attempt rule: attempts.induct)
  case (1 fetch req retries retryDelay attempt)
  show ?case
  proof (cases "try_attempt (fetch attempt req)")
    case (Inr r)
    with "1.prems" show ?thesis by (simp add: attempts_success)
  next
    case (Inl e)
    show ?thesis
    proof (cases "error_name e = str ''AbortError'' \<or> attempt = retries
                   \<or> \<not> (instanceof_NetworkError e \<or> instanceof_ApiError e)")
      case True
      with "1.prems" Inl show ?thesis
        by (subst attempts.simps) auto
    next
      case False
      with "1.IH" [OF "1.prems" Inl] "1.prems" Inl
      have "fst (attempts fetch req retries retryDelay (attempt + 1)) \<noteq> Inr None"
        by auto
      with False "1.prems" Inl show ?thesis
        by (subst attempts.simps) (auto split: prod.splits)
    qed
  qed
qed

subsection \<open>The executor as a whole\<close>

lemma makeApiRequest_valid:
  "regex_test youtubeRegex url \<Longrightarrow>
   makeApiRequest fetch endpoint url retries retryDelay sig =
     attempts fetch (api_request endpoint url sig) retries retryDelay 1"
  by (simp add: makeApiRequest_def validateYoutubeUrl_def)

lemma makeApiRequest_invalid:
  "\<not> regex_test youtubeRegex url \<Longrightarrow>
   makeApiRequest fetch endpoint url retries retryDelay sig =
     (Inl (ValidationError (str ''Invalid YouTube URL provided.'')), [])"
  by (simp add: makeApiRequest_def validateYoutubeUrl_def)

lemma sample_url_valid: "regex_test youtubeRegex sample_url"
  by (simp add: regex_test_def youtubeRegex_def sample_url_def str_def line_terminator_def)

lemma not_a_url_invalid: "\<not> regex_test youtubeRegex (str ''not-a-url'')"
  by (simp add: regex_test_def youtubeRegex_def str_def line_terminator_def)

lemma network_calls_rounds:
  "network_calls (retry_rounds req retryDelay n @ evs) = n + network_calls evs"
  by (induction n) (simp_all add: retry_rounds_def network_calls_def)

lemma sleeps_rounds:
  "sleeps (retry_rounds req retryDelay n @ evs) = n + sleeps evs"
  by (induction n) (simp_all add: retry_rounds_def sleeps_def)

lemma attempts_response_origin:
  "fst (attempts fetch req retries retryDelay attempt) = Inr (Some r) \<Longrightarrow>
   \<exists>k. attempt \<le> k \<and> k \<le> retries \<and> fetch k req = Resolved r \<and> ok r"
proof (induction fetch req retries retryDelay attempt rule: attempts.induct)
  case (1 fetch req retries retryDelay attempt)
  have le: "attempt \<le> retries"
    using "1.prems" by (subst (asm) attempts.simps) (auto split: if_splits)
  show ?case
  proof (cases "try_attempt (fetch attempt req)")
    case (Inr r')
    with le "1.prems" have "r' = r" by (simp add: attempts_success)
    with Inr have "fetch attempt req = Resolved r \<and> ok r"
      by (auto simp: try_attempt_def Let_def split: fetch_result.splits if_splits option.splits)
    with le show ?thesis by auto
  next
    case (Inl e)
    show ?thesis
    proof (cases "error_name e = str ''AbortError'' \<or> attempt = retries
                   \<or> \<not> (instanceof_NetworkError e \<or> instanceof_ApiError e)")
      case True
      with le Inl "1.prems" show ?thesis
        by (subst (asm) attempts.simps) (auto split: if_splits)
    next
      case False
      with le Inl "1.prems"
      have "fst (attempts fetch req retries retryDelay (attempt + 1)) = Inr (Some r)"
        by (subst (asm) attempts.simps) (auto split: prod.splits)
      with "1.IH" [OF le Inl] False
      obtain k where "attempt + 1 \<le> k" "k \<le> retries" "fetch k req = Resolved r" "ok r"
        by auto
      then show ?thesis by (intro exI [of _ k]) simp
    qed
  qed
qed

lemma attempts_events:
  "set (snd (attempts fetch req retries retryDelay attempt)) \<subseteq> {Fetch req, Sleep retryDelay}"
proof (induction fetch req retries retryDelay attempt rule: attempts.induct)
  case (1 fetch req retries retryDelay attempt)
  show ?case
  proof (cases "attempt \<le> retries")
    case False
    then show ?thesis by (simp add: attempts.simps)
  next
    case le: True
    show ?thesis
    proof (cases "try_attempt (fetch attempt req)")
      case (Inr r)
      with le show ?thesis by (simp add: attempts_success)
    next
      case (Inl e)
      show ?thesis
      proof (cases "error_name e = str ''AbortError'' \<or> attempt = retries
                     \<or> \<not> (instanceof_NetworkError e \<or> instanceof_ApiError e)")
        case True
        with le Inl show ?thesis
          by (subst attempts.simps) auto
      next
        case False
        with "1.IH" [OF le Inl]
        have "set (snd (attempts fetch req retries retryDelay (attempt + 1)))
                \<subseteq> {Fetch req, Sleep retryDelay}"
          by auto
        with False le Inl show ?thesis
          by (subst attempts.simps) (auto split: prod.splits)
      qed
    qed
  qed
qed

text \<open>The attempts up to \<open>k\<close>, when every one before \<open>k\<close> fails with a retryable kind.\<close>

lemma attempts_until:
  assumes "1 \<le> k" and "k \<le> retries"
    and "\<forall>j. 1 \<le> j \<and> j < k \<longrightarrow> retryable_failure (fetch j req)"
  shows "attempts fetch req retries retryDelay 1 =
     (case attempts fetch req retries retryDelay k of
        (res, evs) \<Rightarrow> (res, retry_rounds req retryDelay (nat (k - 1)) @ evs))"
proof -
  have k: "1 + int (nat (k - 1)) = k"
    using assms(1) by simp
  show ?thesis
    using attempts_rounds [where attempt = 1 and n = "nat (k - 1)" and fetch = fetch
        and req = req and retries = retries and retryDelay = retryDelay] assms
    by (simp add: k)
qed

subsection \<open>The video information\<close>

lemma fetchVideoInfo_result:
  "fst (fetchVideoInfo fetch url sig) =
     (case parse_video_info (fst (makeApiRequest fetch (str ''/infoVideo'') url 3 1000 sig)) of
        Inl error \<Rightarrow> Inl (remap_error error)
      | Inr videoInfo \<Rightarrow> Inr videoInfo)"
  by (simp add: fetchVideoInfo_def split: prod.splits sum.splits)

lemma falsy_iff: "\<not> falsy p \<longleftrightarrow> (\<exists>v. p = Some v \<and> truthy v)"
  by (cases p) simp_all

lemma makeApiRequest_fetch_success:
  "makeApiRequest fetch_success endpoint sample_url 3 1000 sig =
     (Inr (Some success_response), [Fetch (api_request endpoint sample_url sig)])"
proof -
  have "try_attempt (fetch_success 1 (api_request endpoint sample_url sig)) = Inr success_response"
    by (simp add: try_attempt_def fetch_success_def success_response_def)
  then have "attempts fetch_success (api_request endpoint sample_url sig) 3 1000 1 =
      (Inr (Some success_response), [Fetch (api_request endpoint sample_url sig)])"
    by (intro attempts_success) simp_all
  then show ?thesis
    by (simp add: makeApiRequest_valid [OF sample_url_valid])
qed

subsection \<open>Failure responses\<close>

lemma optional_message_own_prop: "optional_message v = own_prop v (str ''message'')"
  by (simp add: optional_message_def)

text \<open>A message that is a number arrives as its text.\<close>

lemma try_attempt_number_message:
  "try_attempt (Resolved number_message_response) = Inl (ApiError 500 (str ''42''))"
  by (simp add: try_attempt_def number_message_response_def optional_message_def js_or_def str_def)

text \<open>
  A message that cannot be converted to a string: the constructor throws, no
  \<open>ApiError\<close> comes into being, and the \<open>TypeError\<close> is not retried.
\<close>

lemma try_attempt_unconvertible_message:
  "try_attempt (Resolved unconvertible_message_response) =
     Inl (Thrown (str ''TypeError'') (str ''Cannot convert object to primitive value''))
   \<and> \<not> retryable_failure (Resolved unconvertible_message_response)"
  by (simp add: retryable_failure_def try_attempt_def unconvertible_message_response_def
      optional_message_def js_or_def str_def)

lemma try_attempt_failure_response:
  "try_attempt (Resolved (failure_response st)) = Inl (ApiError st (str ''not found''))"
  by (simp add: try_attempt_def failure_response_def optional_message_def js_or_def str_def)

lemma makeApiRequest_fetch_status:
  "makeApiRequest (fetch_status st) endpoint sample_url 3 1000 sig =
     (Inl (ApiError st (str ''not found'')),
      retry_rounds (api_request endpoint sample_url sig) 1000 2
        @ [Fetch (api_request endpoint sample_url sig)])"
proof -
  let ?req = "api_request endpoint sample_url sig"
  have tried: "\<And>k. try_attempt (fetch_status st k ?req) = Inl (ApiError st (str ''not found''))"
    by (simp add: fetch_status_def try_attempt_failure_response)
  then have "attempts (fetch_status st) ?req 3 1000 3 =
      (Inl (ApiError st (str ''not found'')), [Fetch ?req])"
    by (intro attempts_give_up) simp_all
  moreover have "\<forall>j. 1 \<le> j \<and> j < 3 \<longrightarrow> retryable_failure (fetch_status st j ?req)"
    by (simp add: retryable_failure_def tried)
  ultimately have "attempts (fetch_status st) ?req 3 1000 1 =
      (Inl (ApiError st (str ''not found'')), retry_rounds ?req 1000 2 @ [Fetch ?req])"
    using attempts_until [where k = 3 and retries = 3 and fetch = "fetch_status st"
        and req = ?req and retryDelay = 1000]
    by simp
  then show ?thesis
    by (simp add: makeApiRequest_valid [OF sample_url_valid])
qed

lemma network_calls_single: "network_calls [Fetch req] = 1"
  by (simp add: network_calls_def)

lemma sleeps_single: "sleeps [Fetch req] = 0"
  by (simp add: sleeps_def)

lemma makeApiRequest_events:
  "set (snd (makeApiRequest fetch endpoint url retries retryDelay sig))
     \<subseteq> {Fetch (api_request endpoint url sig), Sleep retryDelay}"
proof (cases "regex_test youtubeRegex url")
  case True
  then show ?thesis
    using attempts_events [of fetch "api_request endpoint url sig" retries retryDelay 1]
    by (simp add: makeApiRequest_valid)
next
  case False
  then show ?thesis by (simp add: makeApiRequest_invalid)
qed

lemma makeApiRequest_response_origin:
  assumes "fst (makeApiRequest fetch endpoint url retries retryDelay sig) = Inr (Some r)"
  shows "\<exists>k. 1 \<le> k \<and> k \<le> retries \<and> fetch k (api_request endpoint url sig) = Resolved r \<and> ok r"
proof (cases "regex_test youtubeRegex url")
  case True
  with assms show ?thesis
    using attempts_response_origin [of fetch "api_request endpoint url sig" retries retryDelay 1 r]
    by (simp add: makeApiRequest_valid)
next
  case False
  with assms show ?thesis by (simp add: makeApiRequest_invalid)
qed

lemma makeApiRequest_defined:
  "1 \<le> retries \<Longrightarrow> fst (makeApiRequest fetch endpoint url retries retryDelay sig) \<noteq> Inr None"
proof (cases "regex_test youtubeRegex url")
  case True
  moreover assume "1 \<le> retries"
  ultimately show ?thesis
    using attempts_defined [of 1 retries fetch "api_request endpoint url sig" retryDelay]
    by (simp add: makeApiRequest_valid)
next
  case False
  then show ?thesis by (simp add: makeApiRequest_invalid)
qed

section \<open>The claims\<close>

text \<open>
  Claim C1: a transport failure on an attempt that is not the last is classified as a
  \<open>NetworkError\<close> and retried. The executor does neither: \<open>fetch\<close> rejects with
  a \<open>TypeError\<close> on a transport failure, nothing wraps it into the module's
  \<open>NetworkError\<close> (the class is defined and tested for by the retry guard, but never
  constructed), so the guard finds it not retryable and throws it at once. Here the
  network is down for the first of three attempts only; the second attempt would have
  succeeded, and the call fails with the \<open>TypeError\<close> after a single \<open>fetch\<close>.
\<close>

theorem C1_transport_failure_not_retried:
  "makeApiRequest fetch_offline_once (str ''/download'') sample_url 3 1000 None =
     (Inl transport_failure, [Fetch (api_request (str ''/download'') sample_url None)])
   \<and> \<not> instanceof_NetworkError transport_failure
   \<and> try_attempt (fetch_offline_once 2 (api_request (str ''/download'') sample_url None))
       = Inr success_response"
proof -
  let ?req = "api_request (str ''/download'') sample_url None"
  have "try_attempt (fetch_offline_once 1 ?req) = Inl transport_failure"
    by (simp add: try_attempt_def fetch_offline_once_def)
  moreover have "\<not> (instanceof_NetworkError transport_failure \<or> instanceof_ApiError transport_failure)"
    by (simp add: transport_failure_def)
  ultimately have "attempts fetch_offline_once ?req 3 1000 1 = (Inl transport_failure, [Fetch ?req])"
    by (intro attempts_give_up) simp_all
  moreover have "try_attempt (fetch_offline_once 2 ?req) = Inr success_response"
    by (simp add: try_attempt_def fetch_offline_once_def success_response_def)
  ultimately show ?thesis
    by (simp add: makeApiRequest_valid [OF sample_url_valid] transport_failure_def)
qed

text \<open>
  Claim C2: with \<open>maxAttempts \<ge> 1\<close>, when every attempt fails with a retryable kind
  (\<open>NetworkError\<close> or \<open>ApiError\<close>), exactly \<open>maxAttempts\<close> network calls occur
  and the error of the final attempt is propagated. Whatever the network does, at most
  \<open>maxAttempts\<close> network calls occur, and with \<open>maxAttempts \<ge> 1\<close> (the invariant of
  the request descriptor) the outcome is either a response or an error, never the
  valueless return of a loop that did not run.
\<close>

theorem C2_retry_budget:
  "(1 \<le> retries \<and> regex_test youtubeRegex url
      \<and> (\<forall>k. 1 \<le> k \<and> k \<le> retries \<longrightarrow> retryable_failure (fetch k (api_request endpoint url sig)))
    \<longrightarrow> network_calls (snd (makeApiRequest fetch endpoint url retries retryDelay sig)) = nat retries
        \<and> (\<exists>e. try_attempt (fetch retries (api_request endpoint url sig)) = Inl e
               \<and> fst (makeApiRequest fetch endpoint url retries retryDelay sig) = Inl e))
   \<and> network_calls (snd (makeApiRequest fetch endpoint url retries retryDelay sig)) \<le> nat retries
   \<and> (1 \<le> retries \<longrightarrow> fst (makeApiRequest fetch endpoint url retries retryDelay sig) \<noteq> Inr None)"
proof (intro conjI impI)
  let ?req = "api_request endpoint url sig"
  let ?run = "makeApiRequest fetch endpoint url retries retryDelay sig"
  show "network_calls (snd ?run) \<le> nat retries"
  proof (cases "regex_test youtubeRegex url")
    case True
    with attempts_calls_le [of fetch ?req retries retryDelay 1] show ?thesis
      by (simp add: makeApiRequest_valid)
  next
    case False
    then show ?thesis by (simp add: makeApiRequest_invalid network_calls_def)
  qed
  show "fst ?run \<noteq> Inr None" if "1 \<le> retries"
    using that by (rule makeApiRequest_defined)
  assume all: "1 \<le> retries \<and> regex_test youtubeRegex url
      \<and> (\<forall>k. 1 \<le> k \<and> k \<le> retries \<longrightarrow> retryable_failure (fetch k ?req))"
  then have retries: "1 \<le> retries" and valid: "regex_test youtubeRegex url"
    and before: "\<forall>j. 1 \<le> j \<and> j < retries \<longrightarrow> retryable_failure (fetch j ?req)"
    and last: "retryable_failure (fetch retries ?req)"
    by simp_all
  from last obtain e where e: "try_attempt (fetch retries ?req) = Inl e"
    by (auto simp: retryable_failure_def split: sum.splits)
  then have final: "attempts fetch ?req retries retryDelay retries = (Inl e, [Fetch ?req])"
    by (intro attempts_give_up) simp_all
  have run: "?run = (Inl e, retry_rounds ?req retryDelay (nat (retries - 1)) @ [Fetch ?req])"
    using attempts_until [where k = retries and retries = retries and fetch = fetch
        and req = "?req" and retryDelay = retryDelay] retries before final
    by (simp add: makeApiRequest_valid [OF valid])
  show "network_calls (snd ?run) = nat retries"
    using retries by (simp add: run network_calls_rounds network_calls_single)
  show "\<exists>e. try_attempt (fetch retries ?req) = Inl e \<and> fst ?run = Inl e"
    using e run by simp
qed

text \<open>Status 500 on each of three attempts: three calls, then the last \<open>ApiError\<close>.\<close>

theorem C2_retry_budget_witness:
  "regex_test youtubeRegex sample_url
   \<and> retryable_failure (fetch_status 500 3 (api_request (str ''/infoVideo'') sample_url None))
   \<and> network_calls (snd (makeApiRequest (fetch_status 500) (str ''/infoVideo'') sample_url 3 1000 None)) = 3
   \<and> fst (makeApiRequest (fetch_status 500) (str ''/infoVideo'') sample_url 3 1000 None)
       = Inl (ApiError 500 (str ''not found''))"
proof -
  let ?req = "api_request (str ''/infoVideo'') sample_url None"
  have tried: "\<And>k. try_attempt (fetch_status 500 k ?req) = Inl (ApiError 500 (str ''not found''))"
    by (simp add: fetch_status_def try_attempt_failure_response)
  have every: "\<forall>k. 1 \<le> k \<and> k \<le> 3 \<longrightarrow> retryable_failure (fetch_status 500 k ?req)"
    by (simp add: retryable_failure_def tried)
  then have last: "retryable_failure (fetch_status 500 3 ?req)"
    by simp
  show ?thesis
    using C2_retry_budget [where retries = 3 and url = sample_url and fetch = "fetch_status 500"
        and endpoint = "str ''/infoVideo''" and sig = None and retryDelay = 1000]
      sample_url_valid every last
    by (simp add: tried)
qed

text \<open>
  Claim C3, as stated: every value that \<open>fetchVideoInfo\<close> returns has a non-empty
  title and a non-empty sequence of formats. It fails on a body with a title and an empty
  array of formats: \<open>!videoInfo.formats\<close> tests truthiness, and an empty array is
  truthy, so the value is returned.
\<close>

theorem C3_accepts_empty_formats:
  "fst (fetchVideoInfo fetch_info_without_formats sample_url None) = Inr info_without_formats
   \<and> \<not> nonempty_title_and_formats info_without_formats"
proof -
  let ?req = "api_request (str ''/infoVideo'') sample_url None"
  let ?r = "\<lparr>ok = True, status = 200, json_body = Inr info_without_formats\<rparr>"
  have "try_attempt (fetch_info_without_formats 1 ?req) = Inr ?r"
    by (simp add: try_attempt_def fetch_info_without_formats_def)
  then have "attempts fetch_info_without_formats ?req 3 1000 1 = (Inr (Some ?r), [Fetch ?req])"
    by (intro attempts_success) simp_all
  then have "fst (makeApiRequest fetch_info_without_formats (str ''/infoVideo'') sample_url 3 1000 None)
      = Inr (Some ?r)"
    by (simp add: makeApiRequest_valid [OF sample_url_valid])
  then have "fst (fetchVideoInfo fetch_info_without_formats sample_url None) = Inr info_without_formats"
    by (simp add: fetchVideoInfo_result parse_video_info_def info_without_formats_def str_def)
  moreover have "\<not> nonempty_title_and_formats info_without_formats"
    by (simp add: nonempty_title_and_formats_def info_without_formats_def str_def)
  ultimately show ?thesis by simp
qed

text \<open>
  Claim C3, amended: every value that \<open>fetchVideoInfo\<close> returns is the parsed body
  of the response that the executor returned, is truthy, and has a \<open>title\<close> and a
  \<open>formats\<close> property that are truthy (not \<open>null\<close>, \<open>false\<close>, zero or the
  empty string; any array or object is truthy). Any parsed body whose \<open>title\<close> or
  \<open>formats\<close> is absent or falsy is rejected with the \<open>ValidationError\<close> that
  reports missing required fields.
\<close>

theorem C3_video_info_shape:
  "(fst (fetchVideoInfo fetch url sig) = Inr v \<longrightarrow>
      (\<exists>r. fst (makeApiRequest fetch (str ''/infoVideo'') url 3 1000 sig) = Inr (Some r)
           \<and> json_body r = Inr v)
      \<and> truthy v
      \<and> (\<exists>t. own_prop v (str ''title'') = Some t \<and> truthy t)
      \<and> (\<exists>f. own_prop v (str ''formats'') = Some f \<and> truthy f))
   \<and> (fst (makeApiRequest fetch (str ''/infoVideo'') url 3 1000 sig) = Inr (Some r)
        \<and> json_body r = Inr v
        \<and> (falsy (own_prop v (str ''title'')) \<or> falsy (own_prop v (str ''formats'')))
      \<longrightarrow> fst (fetchVideoInfo fetch url sig) =
            Inl (ValidationError
              (str ''Invalid video info data received from server. Missing required fields.'')))"
proof (intro conjI impI)
  let ?res = "fst (makeApiRequest fetch (str ''/infoVideo'') url 3 1000 sig)"
  assume "fst (fetchVideoInfo fetch url sig) = Inr v"
  then have parsed: "parse_video_info ?res = Inr v"
    by (simp add: fetchVideoInfo_result split: sum.splits)
  then obtain r where r: "?res = Inr (Some r)" "json_body r = Inr v"
    and ok: "truthy v" "\<not> falsy (own_prop v (str ''title''))"
      "\<not> falsy (own_prop v (str ''formats''))"
    by (auto simp: parse_video_info_def split: sum.splits option.splits if_splits)
  from r show "\<exists>r. ?res = Inr (Some r) \<and> json_body r = Inr v" by blast
  from ok show "truthy v" by simp
  from ok show "\<exists>t. own_prop v (str ''title'') = Some t \<and> truthy t"
    by (simp add: falsy_iff)
  from ok show "\<exists>f. own_prop v (str ''formats'') = Some f \<and> truthy f"
    by (simp add: falsy_iff)
next
  let ?res = "fst (makeApiRequest fetch (str ''/infoVideo'') url 3 1000 sig)"
  assume "?res = Inr (Some r) \<and> json_body r = Inr v
        \<and> (falsy (own_prop v (str ''title'')) \<or> falsy (own_prop v (str ''formats'')))"
  then have "parse_video_info ?res = Inl (ValidationError
              (str ''Invalid video info data received from server. Missing required fields.''))"
    by (auto simp: parse_video_info_def)
  then show "fst (fetchVideoInfo fetch url sig) = Inl (ValidationError
              (str ''Invalid video info data received from server. Missing required fields.''))"
    by (simp add: fetchVideoInfo_result remap_error_def)
qed

text \<open>
  The sample metadata is returned as it is; a body without a title is rejected.
\<close>

theorem C3_video_info_shape_witness:
  "fst (fetchVideoInfo fetch_success sample_url None) = Inr sample_info
   \<and> own_prop sample_info (str ''title'') = Some (JStr (str ''X''))
   \<and> falsy (own_prop (JObj [(str ''formats'', JArr [JStr (str ''720p'')])]) (str ''title''))
   \<and> fst (fetchVideoInfo fetch_info_without_title sample_url None) =
       Inl (ValidationError
         (str ''Invalid video info data received from server. Missing required fields.''))"
proof -
  let ?bare = "JObj [(str ''formats'', JArr [JStr (str ''720p'')])]"
  let ?r = "\<lparr>ok = True, status = 200, json_body = Inr ?bare\<rparr>"
  let ?req = "api_request (str ''/infoVideo'') sample_url None"
  have good: "fst (fetchVideoInfo fetch_success sample_url None) = Inr sample_info"
    by (simp add: fetchVideoInfo_result makeApiRequest_fetch_success parse_video_info_def
        success_response_def sample_info_def str_def)
  have title: "own_prop sample_info (str ''title'') = Some (JStr (str ''X''))"
    by (simp add: sample_info_def str_def)
  have "try_attempt (fetch_info_without_title 1 ?req) = Inr ?r"
    by (simp add: try_attempt_def fetch_info_without_title_def)
  then have "attempts fetch_info_without_title ?req 3 1000 1 = (Inr (Some ?r), [Fetch ?req])"
    by (intro attempts_success) simp_all
  then have run: "fst (makeApiRequest fetch_info_without_title (str ''/infoVideo'') sample_url 3 1000 None)
      = Inr (Some ?r)"
    by (simp add: makeApiRequest_valid [OF sample_url_valid])
  have absent: "falsy (own_prop ?bare (str ''title''))"
    by (simp add: str_def)
  show ?thesis
    using C3_video_info_shape [where fetch = fetch_info_without_title and url = sample_url
        and sig = None and v = ?bare and r = ?r]
      C3_video_info_shape [where fetch = fetch_success and url = sample_url
        and sig = None and v = sample_info]
      good title run absent
    by simp
qed

text \<open>
  Claim C4: when the executor fails with an \<open>ApiError\<close> of status 404 or 400,
  \<open>fetchVideoInfo\<close> fails with \<open>ValidationError("Video not found or invalid URL.")\<close>;
  when it fails with anything else (an \<open>ApiError\<close> of another status, a
  \<open>NetworkError\<close>, a cancellation), \<open>fetchVideoInfo\<close> fails with that very error,
  status and message included.
\<close>

theorem C4_error_remapping:
  "(fst (makeApiRequest fetch (str ''/infoVideo'') url 3 1000 sig) = Inl (ApiError st m)
      \<and> (st = 404 \<or> st = 400)
    \<longrightarrow> fst (fetchVideoInfo fetch url sig) =
          Inl (ValidationError (str ''Video not found or invalid URL.'')))
   \<and> (fst (makeApiRequest fetch (str ''/infoVideo'') url 3 1000 sig) = Inl (ApiError st m)
      \<and> st \<noteq> 404 \<and> st \<noteq> 400
    \<longrightarrow> fst (fetchVideoInfo fetch url sig) = Inl (ApiError st m))
   \<and> (fst (makeApiRequest fetch (str ''/infoVideo'') url 3 1000 sig) = Inl e
      \<and> \<not> instanceof_ApiError e
    \<longrightarrow> fst (fetchVideoInfo fetch url sig) = Inl e)"
proof (intro conjI impI)
  assume "fst (makeApiRequest fetch (str ''/infoVideo'') url 3 1000 sig) = Inl (ApiError st m)
      \<and> (st = 404 \<or> st = 400)"
  then show "fst (fetchVideoInfo fetch url sig) =
      Inl (ValidationError (str ''Video not found or invalid URL.''))"
    by (auto simp: fetchVideoInfo_result parse_video_info_def remap_error_def)
next
  assume "fst (makeApiRequest fetch (str ''/infoVideo'') url 3 1000 sig) = Inl (ApiError st m)
      \<and> st \<noteq> 404 \<and> st \<noteq> 400"
  then show "fst (fetchVideoInfo fetch url sig) = Inl (ApiError st m)"
    by (simp add: fetchVideoInfo_result parse_video_info_def remap_error_def)
next
  assume "fst (makeApiRequest fetch (str ''/infoVideo'') url 3 1000 sig) = Inl e
      \<and> \<not> instanceof_ApiError e"
  then show "fst (fetchVideoInfo fetch url sig) = Inl e"
    by (cases e) (simp_all add: fetchVideoInfo_result parse_video_info_def remap_error_def)
qed

text \<open>
  Status 404 on every attempt surfaces as the \<open>ValidationError\<close>, status 500 as the
  \<open>ApiError\<close> of the last attempt.
\<close>

theorem C4_error_remapping_witness:
  "fst (makeApiRequest (fetch_status 404) (str ''/infoVideo'') sample_url 3 1000 None)
     = Inl (ApiError 404 (str ''not found''))
   \<and> fst (fetchVideoInfo (fetch_status 404) sample_url None)
     = Inl (ValidationError (str ''Video not found or invalid URL.''))
   \<and> fst (makeApiRequest (fetch_status 500) (str ''/infoVideo'') sample_url 3 1000 None)
     = Inl (ApiError 500 (str ''not found''))
   \<and> fst (fetchVideoInfo (fetch_status 500) sample_url None)
     = Inl (ApiError 500 (str ''not found''))"
  using C4_error_remapping [where fetch = "fetch_status 404" and url = sample_url and sig = None
      and st = 404 and m = "str ''not found''"]
    C4_error_remapping [where fetch = "fetch_status 500" and url = sample_url and sig = None
      and st = 500 and m = "str ''not found''"]
  by (simp add: makeApiRequest_fetch_status)

text \<open>
  Claim C5, as stated: the validator returns normally if and only if the string has the
  described form, with any non-empty path. It fails on an accepted address followed by a
  line feed: \<open>.\<close> matches no line terminator and \<open>$\<close> only the end of the input, so
  the validator rejects a string of the described form.
\<close>

theorem C5_rejects_line_terminator:
  "described_pattern url_with_newline
   \<and> validateYoutubeUrl url_with_newline =
       Inl (ValidationError (str ''Invalid YouTube URL provided.''))"
proof -
  have "described_pattern url_with_newline"
    unfolding described_pattern_def
    by (rule exI [of _ "str ''https://''"], rule exI [of _ "[]"],
        rule exI [of _ "str ''youtu.be''"], rule exI [of _ "str ''abc123'' @ [0x0A]"])
       (simp add: url_with_newline_def str_def)
  moreover have "\<not> regex_test youtubeRegex url_with_newline"
    by (simp add: regex_test_def youtubeRegex_def url_with_newline_def str_def line_terminator_def)
  ultimately show ?thesis
    by (simp add: validateYoutubeUrl_def)
qed

text \<open>
  Claim C5, amended: the validator returns normally if and only if the string is an
  optional \<open>http://\<close> or \<open>https://\<close>, an optional \<open>www.\<close>, one of the hosts
  \<open>youtube.com\<close> and \<open>youtu.be\<close>, a slash and a non-empty path that holds no line
  terminator. For every other string it fails with
  \<open>ValidationError("Invalid YouTube URL provided.")\<close>, and so does the executor, with
  no network call and no delay.
\<close>

theorem C5_validator:
  "(validateYoutubeUrl url = Inr () \<longleftrightarrow> accepted_pattern url)
   \<and> (\<not> accepted_pattern url \<longrightarrow>
        validateYoutubeUrl url = Inl (ValidationError (str ''Invalid YouTube URL provided.''))
        \<and> makeApiRequest fetch endpoint url retries retryDelay sig =
            (Inl (ValidationError (str ''Invalid YouTube URL provided.'')), [])
        \<and> network_calls (snd (makeApiRequest fetch endpoint url retries retryDelay sig)) = 0
        \<and> sleeps (snd (makeApiRequest fetch endpoint url retries retryDelay sig)) = 0)"
  by (simp add: validateYoutubeUrl_def regex_test_youtubeRegex [symmetric]
      makeApiRequest_invalid network_calls_def sleeps_def)

text \<open>\<open>not-a-url\<close> is rejected before any call.\<close>

theorem C5_validator_witness:
  "\<not> accepted_pattern (str ''not-a-url'')
   \<and> makeApiRequest fetch_success (str ''/infoVideo'') (str ''not-a-url'') 3 1000 None =
       (Inl (ValidationError (str ''Invalid YouTube URL provided.'')), [])
   \<and> validateYoutubeUrl sample_url = Inr ()"
  using C5_validator [of "str ''not-a-url''" fetch_success "str ''/infoVideo''" 3 1000 None]
    C5_validator [of sample_url fetch_success "str ''/infoVideo''" 3 1000 None]
    not_a_url_invalid sample_url_valid
  by (simp add: regex_test_youtubeRegex)




text \<open>
  Claim C7: when an attempt receives a response with a success status, the executor
  returns that response on that attempt: the successful call is its last event, so no
  attempt and no delay follows it. The only delays are those after the failed attempts
  before it; a success on the first attempt takes none.
\<close>

theorem C7_success_short_circuits:
  "regex_test youtubeRegex url \<Longrightarrow> 1 \<le> k \<Longrightarrow> k \<le> retries \<Longrightarrow>
   \<forall>j. 1 \<le> j \<and> j < k \<longrightarrow> retryable_failure (fetch j (api_request endpoint url sig)) \<Longrightarrow>
   fetch k (api_request endpoint url sig) = Resolved r \<Longrightarrow> ok r \<Longrightarrow>
   makeApiRequest fetch endpoint url retries retryDelay sig =
     (Inr (Some r), retry_rounds (api_request endpoint url sig) retryDelay (nat (k - 1))
                      @ [Fetch (api_request endpoint url sig)])
   \<and> network_calls (snd (makeApiRequest fetch endpoint url retries retryDelay sig)) = nat k
   \<and> sleeps (snd (makeApiRequest fetch endpoint url retries retryDelay sig)) = nat (k - 1)"
proof -
  let ?req = "api_request endpoint url sig"
  assume valid: "regex_test youtubeRegex url" and k: "1 \<le> k" "k \<le> retries"
    and before: "\<forall>j. 1 \<le> j \<and> j < k \<longrightarrow> retryable_failure (fetch j ?req)"
    and resolved: "fetch k ?req = Resolved r" and ok: "ok r"
  have "try_attempt (fetch k ?req) = Inr r"
    by (simp add: try_attempt_def resolved ok)
  then have "attempts fetch ?req retries retryDelay k = (Inr (Some r), [Fetch ?req])"
    using k by (intro attempts_success) simp_all
  then have run: "makeApiRequest fetch endpoint url retries retryDelay sig =
      (Inr (Some r), retry_rounds ?req retryDelay (nat (k - 1)) @ [Fetch ?req])"
    using attempts_until [where k = k and retries = retries and fetch = fetch
        and req = ?req and retryDelay = retryDelay] k before
    by (simp add: makeApiRequest_valid [OF valid])
  have "network_calls (snd (makeApiRequest fetch endpoint url retries retryDelay sig)) = nat k"
    using k by (simp add: run network_calls_rounds network_calls_single)
  moreover have "sleeps (snd (makeApiRequest fetch endpoint url retries retryDelay sig)) = nat (k - 1)"
    by (simp add: run sleeps_rounds sleeps_single)
  ultimately show ?thesis using run by simp
qed

text \<open>A success on the first of three attempts: one call, no delay.\<close>

theorem C7_success_short_circuits_witness:
  "fetch_success 1 (api_request (str ''/download'') sample_url None) = Resolved success_response
   \<and> ok success_response
   \<and> makeApiRequest fetch_success (str ''/download'') sample_url 3 1000 None =
       (Inr (Some success_response), [Fetch (api_request (str ''/download'') sample_url None)])
   \<and> sleeps (snd (makeApiRequest fetch_success (str ''/download'') sample_url 3 1000 None)) = 0"
proof -
  let ?req = "api_request (str ''/download'') sample_url None"
  have resolved: "fetch_success 1 ?req = Resolved success_response"
    by (simp add: fetch_success_def)
  have ok: "ok success_response"
    by (simp add: success_response_def)
  have before: "\<forall>j. 1 \<le> j \<and> j < 1 \<longrightarrow> retryable_failure (fetch_success j ?req)"
    by auto
  show ?thesis
    using C7_success_short_circuits [where url = sample_url and k = 1 and retries = 3
        and fetch = fetch_success and endpoint = "str ''/download''" and sig = None
        and r = success_response and retryDelay = 1000]
      sample_url_valid before resolved ok
    by (simp add: retry_rounds_def sleeps_single)
qed

text \<open>
  Claim C8, as stated: the message of the \<open>ApiError\<close> is the message field of the
  parsed body when present. It fails on a body whose message is the empty string: the
  field is present, but \<open>||\<close> takes the default for every falsy value.
\<close>

theorem C8_empty_message_replaced:
  "own_prop (JObj [(str ''message'', JStr [])]) (str ''message'') = Some (JStr [])
   \<and> ToString (message_when_present (json_body empty_message_response)) = Some []
   \<and> try_attempt (Resolved empty_message_response) =
       Inl (ApiError 500 (str ''Unknown API error''))
   \<and> try_attempt (Resolved empty_message_response) \<noteq>
       Inl (ApiError (status empty_message_response) [])"
  by (simp add: try_attempt_def empty_message_response_def optional_message_def js_or_def
      message_when_present_def str_def)

text \<open>
  Claim C8, amended: for an attempt whose response is not \<open>ok\<close>, the message is
  chosen as \<open>"Unknown API error"\<close> when the body does not parse, has no message field
  or has a falsy one (\<open>null\<close>, \<open>false\<close>, zero, the empty string), and as the
  message field otherwise. Whenever the chosen message converts to a string, the attempt
  fails with \<open>ApiError(status, text)\<close>, where the text is that conversion: a string
  message, the default included, is taken as it is.
\<close>

theorem C8_api_error:
  "\<not> ok r \<Longrightarrow>
   message =
     (case json_body r of
        Inl e \<Rightarrow> JStr (str ''Unknown API error'')
      | Inr errorData \<Rightarrow>
          (case own_prop errorData (str ''message'') of
             None \<Rightarrow> JStr (str ''Unknown API error'')
           | Some m \<Rightarrow> if truthy m then m else JStr (str ''Unknown API error''))) \<Longrightarrow>
   ToString message = Some text \<Longrightarrow>
   try_attempt (Resolved r) = Inl (ApiError (status r) text)
   \<and> (\<forall>s. message = JStr s \<longrightarrow> text = s)"
proof -
  assume failure: "\<not> ok r"
    and message: "message =
     (case json_body r of
        Inl e \<Rightarrow> JStr (str ''Unknown API error'')
      | Inr errorData \<Rightarrow>
          (case own_prop errorData (str ''message'') of
             None \<Rightarrow> JStr (str ''Unknown API error'')
           | Some m \<Rightarrow> if truthy m then m else JStr (str ''Unknown API error'')))"
    and converted: "ToString message = Some text"
  have "js_or (optional_message (case json_body r of Inl e \<Rightarrow> JNull | Inr v \<Rightarrow> v))
          (JStr (str ''Unknown API error'')) = message"
    unfolding message
    by (cases "json_body r")
       (simp_all add: optional_message_own_prop js_or_def split: option.splits)
  then have "try_attempt (Resolved r) = Inl (ApiError (status r) text)"
    using failure converted by (simp add: try_attempt_def)
  moreover have "\<forall>s. message = JStr s \<longrightarrow> text = s"
    using converted by auto
  ultimately show ?thesis by simp
qed

text \<open>Status 404 with the body \<open>{"message": "not found"}\<close>.\<close>

theorem C8_api_error_witness:
  "\<not> ok (failure_response 404)
   \<and> ToString (JStr (str ''not found'')) = Some (str ''not found'')
   \<and> try_attempt (Resolved (failure_response 404)) = Inl (ApiError 404 (str ''not found''))"
proof -
  have failure: "\<not> ok (failure_response 404)"
    by (simp add: failure_response_def)
  have message: "JStr (str ''not found'') =
     (case json_body (failure_response 404) of
        Inl e \<Rightarrow> JStr (str ''Unknown API error'')
      | Inr errorData \<Rightarrow>
          (case own_prop errorData (str ''message'') of
             None \<Rightarrow> JStr (str ''Unknown API error'')
           | Some m \<Rightarrow> if truthy m then m else JStr (str ''Unknown API error'')))"
    by (simp add: failure_response_def str_def)
  have converted: "ToString (JStr (str ''not found'')) = Some (str ''not found'')"
    by simp
  show ?thesis
    using C8_api_error [OF failure message converted] failure converted
    by (simp add: failure_response_def)
qed

text \<open>
  Claim C9: \<open>downloadVideo\<close> is the executor on the download endpoint with the default
  budget of three attempts and delay of 1000 ms, with the same outcome and the same
  events: every call goes to the download endpoint, a value returned is the very response
  with which one of those calls resolved (its body not read), and an error is the one the
  executor produced.
\<close>

theorem C9_download_delegates:
  "downloadVideo fetch url sig = makeApiRequest fetch (str ''/download'') url 3 1000 sig
   \<and> (\<forall>r. fst (downloadVideo fetch url sig) = Inr (Some r) \<longrightarrow>
         (\<exists>k. 1 \<le> k \<and> k \<le> 3
              \<and> fetch k (api_request (str ''/download'') url sig) = Resolved r \<and> ok r))
   \<and> fst (downloadVideo fetch url sig) \<noteq> Inr None
   \<and> (\<forall>req. Fetch req \<in> set (snd (downloadVideo fetch url sig)) \<longrightarrow>
         req = api_request (str ''/download'') url sig
         \<and> target req = API_BASE_URL @ str ''/download'')"
proof (intro conjI allI impI)
  show "downloadVideo fetch url sig = makeApiRequest fetch (str ''/download'') url 3 1000 sig"
    by (simp add: downloadVideo_def)
  show "fst (downloadVideo fetch url sig) \<noteq> Inr None"
    by (simp add: downloadVideo_def makeApiRequest_defined)
next
  fix r assume "fst (downloadVideo fetch url sig) = Inr (Some r)"
  then show "\<exists>k. 1 \<le> k \<and> k \<le> 3
      \<and> fetch k (api_request (str ''/download'') url sig) = Resolved r \<and> ok r"
    by (simp add: downloadVideo_def makeApiRequest_response_origin)
next
  fix req assume "Fetch req \<in> set (snd (downloadVideo fetch url sig))"
  then have "Fetch req \<in> {Fetch (api_request (str ''/download'') url sig), Sleep 1000}"
    using makeApiRequest_events [of fetch "str ''/download''" url 3 1000 sig]
    by (auto simp: downloadVideo_def)
  then show "req = api_request (str ''/download'') url sig" by simp
  then show "target req = API_BASE_URL @ str ''/download''"
    by (simp add: api_request_def)
qed

text \<open>The download of the sample address from a server that answers.\<close>

theorem C9_download_delegates_witness:
  "downloadVideo fetch_success sample_url None =
     (Inr (Some success_response), [Fetch (api_request (str ''/download'') sample_url None)])
   \<and> (\<exists>k. 1 \<le> k \<and> k \<le> 3
          \<and> fetch_success k (api_request (str ''/download'') sample_url None)
              = Resolved success_response
          \<and> ok success_response)"
proof -
  note delegates = C9_download_delegates [of fetch_success sample_url None]
  have "downloadVideo fetch_success sample_url None =
      makeApiRequest fetch_success (str ''/download'') sample_url 3 1000 None"
    using delegates by (rule conjunct1)
  then have run: "downloadVideo fetch_success sample_url None =
      (Inr (Some success_response), [Fetch (api_request (str ''/download'') sample_url None)])"
    by (simp add: makeApiRequest_fetch_success)
  then have returned: "fst (downloadVideo fetch_success sample_url None) = Inr (Some success_response)"
    by simp
  have "\<forall>r. fst (downloadVideo fetch_success sample_url None) = Inr (Some r) \<longrightarrow>
         (\<exists>k. 1 \<le> k \<and> k \<le> 3
              \<and> fetch_success k (api_request (str ''/download'') sample_url None) = Resolved r
              \<and> ok r)"
    by (rule delegates [THEN conjunct2, THEN conjunct1])
  with returned have "\<exists>k. 1 \<le> k \<and> k \<le> 3
      \<and> fetch_success k (api_request (str ''/download'') sample_url None) = Resolved success_response
      \<and> ok success_response"
    by blast
  with run show ?thesis by (rule conjI)
qed

text \<open>
  Claim C10: with a valid address and a budget below 1, the loop body never runs: the
  executor returns nothing (\<open>undefined\<close>), neither a response nor an error, without
  any network call.
\<close>

theorem C10_empty_budget:
  "regex_test youtubeRegex url \<Longrightarrow> retries < 1 \<Longrightarrow>
   makeApiRequest fetch endpoint url retries retryDelay sig = (Inr None, [])
   \<and> network_calls (snd (makeApiRequest fetch endpoint url retries retryDelay sig)) = 0"
  by (simp add: makeApiRequest_valid attempts_done network_calls_def)

text \<open>A budget of zero.\<close>

theorem C10_empty_budget_witness:
  "regex_test youtubeRegex sample_url
   \<and> makeApiRequest fetch_success (str ''/download'') sample_url 0 1000 None = (Inr None, [])"
  using C10_empty_budget [OF sample_url_valid, of 0 fetch_success "str ''/download''" 1000 None]
    sample_url_valid
  by simp

end
